theory Spec2Isabelle
  imports Complex_Main "HOL-Library.Log_Nat"
begin

section \<open>Python values and exceptions\<close>

text \<open>
  The exceptions that \<^verbatim>\<open>real_demo.py\<close> can raise on its data path, and \<^verbatim>\<open>OSError\<close> for
  a failure of the network or of the image decoder. A raise is the \<open>Inl\<close> branch of a
  result.
\<close>

datatype error =
    ZeroDivisionError
  | OverflowError
  | TypeError
  | ValueError
  | IndexError
  | KeyError
  | UnboundLocalError
  | OSError

text \<open>
  Raw coordinates are what \<^verbatim>\<open>REAL_SAMPLES\<close> holds under \<^verbatim>\<open>"data"\<close>: Python ints
  (unbounded) and lists nested to any depth.
\<close>

datatype coords = Num int | Seq "coords list"

text \<open>
  A finite Python float is an IEEE 754 binary64 number: a sign and a magnitude, the
  magnitude being a rational of the form \<open>m * 2 ^ e\<close> with \<open>m < 2 ^ 53\<close>. The sign is kept
  apart so that \<^verbatim>\<open>-0.0\<close> and \<^verbatim>\<open>0.0\<close> stay different values, as they print differently.
\<close>

datatype pyfloat = Float (negative: bool) (magnitude: rat)

text \<open>What \<^verbatim>\<open>normalize_coords\<close> returns: a float, a list, or \<^verbatim>\<open>None\<close>.\<close>

datatype nvalue = NoneV | FloatV pyfloat | ListV "nvalue list"

definition ebind :: "error + 'a \<Rightarrow> ('a \<Rightarrow> error + 'b) \<Rightarrow> error + 'b" where
  "ebind m f = (case m of Inl e \<Rightarrow> Inl e | Inr v \<Rightarrow> f v)"

section \<open>Float arithmetic: \<^verbatim>\<open>int / int\<close> and \<^verbatim>\<open>round(f, 3)\<close>\<close>

definition pow2 :: "int \<Rightarrow> rat" where
  "pow2 e = (if 0 \<le> e then 2 ^ nat e else 1 / 2 ^ nat (- e))"

text \<open>Rounding a rational to the nearest integer, a tie going to the even neighbour.\<close>

definition round_half_even :: "rat \<Rightarrow> int" where
  "round_half_even q =
     (let f = \<lfloor>q\<rfloor>; d = q - of_int f
      in if d < 1 / 2 then f
         else if 1 / 2 < d then f + 1
         else if even f then f else f + 1)"

text \<open>
  \<open>binary_exponent a b\<close> is \<open>\<lfloor>log\<^sub>2 (a / b)\<rfloor>\<close> for positive \<open>a\<close> and \<open>b\<close>, found from the
  bit lengths of the two integers as CPython's \<^verbatim>\<open>long_true_divide\<close> does.
\<close>

definition binary_exponent :: "int \<Rightarrow> int \<Rightarrow> int" where
  "binary_exponent a b =
     (let d = bitlen a - bitlen b
      in if pow2 d * of_int b \<le> of_int a then d else d - 1)"

text \<open>
  \<open>nearest_double a b\<close>, for \<open>0 \<le> a\<close> and \<open>0 < b\<close>, is the quotient \<open>a / b\<close> rounded to
  53 significant bits (fewer below \<open>2 ^ -1022\<close>, the subnormal range), ties to even. The
  result can reach \<open>2 ^ 1024\<close>, which no double holds: the callers test for it.
\<close>

definition nearest_double :: "int \<Rightarrow> int \<Rightarrow> rat" where
  "nearest_double a b =
     (if a = 0 then 0
      else let p = max (binary_exponent a b) (- 1022) - 52
           in of_int (round_half_even (of_int a / of_int b / pow2 p)) * pow2 p)"

text \<open>
  The quotient of two ints as a float, before the range check: the magnitudes' quotient
  correctly rounded, and the sign the exclusive-or of the operands' signs (so that
  \<^verbatim>\<open>0 / -5\<close> is \<^verbatim>\<open>-0.0\<close>).
\<close>

definition float_div :: "int \<Rightarrow> int \<Rightarrow> pyfloat" where
  "float_div a b = Float ((a < 0) \<noteq> (b < 0)) (nearest_double \<bar>a\<bar> \<bar>b\<bar>)"

text \<open>
  Python's \<^verbatim>\<open>a / b\<close> on two ints: a zero divisor raises, and so does a quotient that
  rounds to \<open>2 ^ 1024\<close> or more (\<^verbatim>\<open>integer division result too large for a float\<close>).
\<close>

definition true_divide :: "int \<Rightarrow> int \<Rightarrow> error + pyfloat" where
  "true_divide a b =
     (if b = 0 then Inl ZeroDivisionError
      else let q = float_div a b
           in if pow2 1024 \<le> magnitude q then Inl OverflowError else Inr q)"

text \<open>
  Python's \<^verbatim>\<open>round(f, 3)\<close> on a finite float: the exact value of \<open>f\<close> is rounded to a
  multiple of \<open>1 / 1000\<close>, ties to even, and that decimal is converted back to the nearest
  double. The sign is kept.
\<close>

definition round3 :: "pyfloat \<Rightarrow> pyfloat" where
  "round3 f =
     Float (negative f) (nearest_double (round_half_even (magnitude f * 1000)) 1000)"

text \<open>The number a float stands for; both zeros stand for \<open>0\<close>.\<close>

definition fval :: "pyfloat \<Rightarrow> rat" where
  "fval f = (if negative f then - magnitude f else magnitude f)"

text \<open>An int whose quotient by any positive int is within the range of a double.\<close>

definition fits_double :: "int \<Rightarrow> bool" where
  "fits_double x = (\<bar>x\<bar> < 2 ^ 1023)"

text \<open>The floats of a normalized value, in the order they appear.\<close>

fun scalars :: "nvalue \<Rightarrow> pyfloat list" where
  "scalars NoneV = []"
| "scalars (FloatV f) = [f]"
| "scalars (ListV vs) = concat (map scalars vs)"

text \<open>A float within the unit interval, both ends included.\<close>

definition in_unit_interval :: "pyfloat \<Rightarrow> bool" where
  "in_unit_interval f = (0 \<le> fval f \<and> fval f \<le> 1)"

text \<open>
  The float that the literal with three decimals \<open>n / 1000\<close> denotes (\<^verbatim>\<open>0.536\<close> is
  \<open>decimal3 536\<close>): the double nearest to that decimal.
\<close>

definition decimal3 :: "int \<Rightarrow> pyfloat" where
  "decimal3 n = Float False (nearest_double n 1000)"

text \<open>
  The value of \<^verbatim>\<open>round(x / w, 3)\<close> for ints \<open>x\<close> and \<open>w\<close> whenever the division returns.
\<close>

definition rounded_quotient :: "int \<Rightarrow> int \<Rightarrow> nvalue" where
  "rounded_quotient x w = FloatV (round3 (float_div x w))"

text \<open>A point \<^verbatim>\<open>[x, y]\<close> of a payload.\<close>

definition point_coords :: "int \<times> int \<Rightarrow> coords" where
  "point_coords p = Seq [Num (fst p), Num (snd p)]"

section \<open>Operations on raw coordinates\<close>

text \<open>\<^verbatim>\<open>c / w\<close> where \<open>w\<close> is an int: a list operand is a \<^verbatim>\<open>TypeError\<close>.\<close>

fun divide :: "coords \<Rightarrow> int \<Rightarrow> error + pyfloat" where
  "divide (Num x) w = true_divide x w"
| "divide (Seq xs) w = Inl TypeError"

text \<open>\<^verbatim>\<open>a + b\<close>: int addition, list concatenation, and a \<^verbatim>\<open>TypeError\<close> when mixed.\<close>

fun add :: "coords \<Rightarrow> coords \<Rightarrow> error + coords" where
  "add (Num x) (Num y) = Inr (Num (x + y))"
| "add (Seq xs) (Seq ys) = Inr (Seq (xs @ ys))"
| "add (Num x) (Seq ys) = Inl TypeError"
| "add (Seq xs) (Num y) = Inl TypeError"

text \<open>\<^verbatim>\<open>c[i]\<close> for a literal index \<open>i \<ge> 0\<close>.\<close>

fun subscript :: "coords \<Rightarrow> nat \<Rightarrow> error + coords" where
  "subscript (Num x) i = Inl TypeError"
| "subscript (Seq xs) i = (if i < length xs then Inr (xs ! i) else Inl IndexError)"

text \<open>\<^verbatim>\<open>round(c / w, 3)\<close>.\<close>

definition round_div :: "coords \<Rightarrow> int \<Rightarrow> error + nvalue" where
  "round_div c w = ebind (divide c w) (\<lambda>f. Inr (FloatV (round3 f)))"

section \<open>\<^verbatim>\<open>normalize_coords\<close>\<close>

text \<open>\<^verbatim>\<open>[round(p[0]/w, 3), round(p[1]/h, 3)]\<close>, the body shared by the last two branches.\<close>

definition normalize_pair :: "coords \<Rightarrow> int \<Rightarrow> int \<Rightarrow> error + nvalue" where
  "normalize_pair p w h =
     ebind (subscript p 0) (\<lambda>p0.
     ebind (round_div p0 w) (\<lambda>a.
     ebind (subscript p 1) (\<lambda>p1.
     ebind (round_div p1 h) (\<lambda>b.
     Inr (ListV [a, b])))))"

text \<open>The list comprehension of the trajectory branch, left to right.\<close>

fun normalize_each :: "coords list \<Rightarrow> int \<Rightarrow> int \<Rightarrow> error + nvalue list" where
  "normalize_each [] w h = Inr []"
| "normalize_each (p # ps) w h =
     ebind (normalize_pair p w h) (\<lambda>v.
     ebind (normalize_each ps w h) (\<lambda>vs.
     Inr (v # vs)))"

text \<open>
  \<^verbatim>\<open>x, y, bw, bh = coords\<close>: an int cannot be unpacked (\<^verbatim>\<open>TypeError\<close>), a list of
  another length than four is a \<^verbatim>\<open>ValueError\<close>.
\<close>

fun unpack4 :: "coords \<Rightarrow> error + coords \<times> coords \<times> coords \<times> coords" where
  "unpack4 (Num n) = Inl TypeError"
| "unpack4 (Seq [x, y, bw, bh]) = Inr (x, y, bw, bh)"
| "unpack4 (Seq xs) = Inl ValueError"

definition normalize_coords :: "coords \<Rightarrow> int \<Rightarrow> int \<Rightarrow> string \<Rightarrow> error + nvalue" where
  "normalize_coords coords w h type =
     (if type = ''bbox'' then
        ebind (unpack4 coords) (\<lambda>(x, y, bw, bh).
        ebind (round_div x w) (\<lambda>a.
        ebind (round_div y h) (\<lambda>b.
        ebind (add x bw) (\<lambda>xr.
        ebind (round_div xr w) (\<lambda>c.
        ebind (add y bh) (\<lambda>yb.
        ebind (round_div yb h) (\<lambda>d.
        Inr (ListV [a, b, c, d]))))))))
      else if type = ''point'' then normalize_pair coords w h
      else if type = ''trajectory'' then
        (case coords of
           Num n \<Rightarrow> Inl TypeError
         | Seq ps \<Rightarrow> ebind (normalize_each ps w h) (\<lambda>vs. Inr (ListV vs)))
      else Inr NoneV)"

section \<open>The samples, the unified record and the driver's state\<close>

text \<open>An element of \<^verbatim>\<open>REAL_SAMPLES\<close>; \<^verbatim>\<open>"data"\<close> is a dict from key to raw coordinates.\<close>

record raw_sample =
  item_id :: string
  item_url :: string
  item_task_type :: string
  item_label :: string
  item_data :: "string \<rightharpoonup> coords"
  item_instruction :: string

record media =
  image_size :: "int \<times> int"
  media_url :: string

record annotation =
  ann_type :: string
  ann_value :: nvalue
  ann_label :: string

record turn =
  turn_from :: string
  turn_value :: string

text \<open>The dict \<^verbatim>\<open>entry\<close> built for each sample.\<close>

record unified_record =
  entry_id :: string
  entry_source :: string
  entry_task_type :: string
  entry_media :: media
  spatial_annotations :: "annotation list"
  conversations :: "turn list"

text \<open>
  A decoded image is used through \<^verbatim>\<open>image.size\<close> only, so it is its width and height.
\<close>

type_synonym image = "int \<times> int"

text \<open>
  The variables of \<^verbatim>\<open>run_multimodal_pipeline\<close> that live across iterations:
  \<^verbatim>\<open>unified_data\<close>, and \<^verbatim>\<open>gpt_resp\<close>, which is unbound (\<open>None\<close>) until a branch of the
  dispatch assigns it. \<open>rendered\<close> logs the calls of \<^verbatim>\<open>visualize_task\<close>: the sample and
  the file name.
\<close>

record locals =
  unified_data :: "unified_record list"
  gpt_resp :: "string option"
  rendered :: "(raw_sample \<times> string) list"

text \<open>What a completed run leaves behind: the text of the JSONL file and the figures.\<close>

record outcome =
  jsonl :: string
  figures :: "(raw_sample \<times> string) list"

section \<open>\<^verbatim>\<open>download_image\<close>\<close>

text \<open>
  \<open>fetch\<close> stands for \<^verbatim>\<open>requests.get\<close> followed by \<^verbatim>\<open>Image.open\<close>: the network and the
  decoder, which are not part of the program. The bare \<^verbatim>\<open>except\<close> turns every failure
  into \<^verbatim>\<open>None\<close>.
\<close>

definition download_image :: "(string \<Rightarrow> error + image) \<Rightarrow> string \<Rightarrow> image option" where
  "download_image fetch url = (case fetch url of Inl e \<Rightarrow> None | Inr img \<Rightarrow> Some img)"

section \<open>Formatting\<close>

fun join :: "string \<Rightarrow> string list \<Rightarrow> string" where
  "join sep [] = []"
| "join sep [s] = s"
| "join sep (s # t # ts) = s @ sep @ join sep (t # ts)"

text \<open>
  \<^verbatim>\<open>str\<close> of a normalized value, as the f-strings apply it. \<open>repr\<close> is \<^verbatim>\<open>float.__repr__\<close>,
  the shortest decimal string that reads back as the same double; it belongs to the
  interpreter and is a parameter here.
\<close>

fun py_str :: "(pyfloat \<Rightarrow> string) \<Rightarrow> nvalue \<Rightarrow> string" where
  "py_str repr NoneV = ''None''"
| "py_str repr (FloatV f) = repr f"
| "py_str repr (ListV vs) = ''['' @ join '', '' (map (py_str repr) vs) @ '']''"

section \<open>\<^verbatim>\<open>visualize_task\<close>\<close>

text \<open>\<^verbatim>\<open>d[key]\<close> on a dict.\<close>

definition getitem :: "(string \<rightharpoonup> 'a) \<Rightarrow> string \<Rightarrow> error + 'a" where
  "getitem d key = (case d key of None \<Rightarrow> Inl KeyError | Some v \<Rightarrow> Inr v)"

fun unpack2 :: "coords \<Rightarrow> error + coords \<times> coords" where
  "unpack2 (Num n) = Inl TypeError"
| "unpack2 (Seq [x, y]) = Inr (x, y)"
| "unpack2 (Seq xs) = Inl ValueError"

text \<open>\<^verbatim>\<open>[p[i] for p in points]\<close>.\<close>

fun column :: "nat \<Rightarrow> coords list \<Rightarrow> error + coords list" where
  "column i [] = Inr []"
| "column i (p # ps) =
     ebind (subscript p i) (\<lambda>c.
     ebind (column i ps) (\<lambda>cs.
     Inr (c # cs)))"

text \<open>
  The drawing is matplotlib's and is not modelled; what is modelled is how
  \<^verbatim>\<open>visualize_task\<close> takes the raw payload apart, which can raise.
\<close>

definition visualize_task :: "raw_sample \<Rightarrow> string \<Rightarrow> error + unit" where
  "visualize_task item save_name =
     (let data = item_data item; task = item_task_type item
      in if task = ''detection'' then
           ebind (getitem data ''bbox'') (\<lambda>bbox.
           ebind (unpack4 bbox) (\<lambda>(x, y, w, h). Inr ()))
         else if task = ''trajectory'' then
           ebind (getitem data ''points'') (\<lambda>points.
           (case points of
              Num n \<Rightarrow> Inl TypeError
            | Seq ps \<Rightarrow>
                ebind (column 0 ps) (\<lambda>xs.
                ebind (column 1 ps) (\<lambda>ys. Inr ()))))
         else if task = ''affordance'' then
           ebind (getitem data ''point'') (\<lambda>point.
           ebind (unpack2 point) (\<lambda>(x, y). Inr ()))
         else Inr ())"

section \<open>\<^verbatim>\<open>run_multimodal_pipeline\<close>\<close>

definition new_entry :: "raw_sample \<Rightarrow> int \<Rightarrow> int \<Rightarrow> unified_record" where
  "new_entry item w h =
     \<lparr>entry_id = item_id item,
      entry_source = ''coco_simulated'',
      entry_task_type = item_task_type item,
      entry_media = \<lparr>image_size = (w, h), media_url = item_url item\<rparr>,
      spatial_annotations = [],
      conversations = []\<rparr>"

definition append_annotation :: "unified_record \<Rightarrow> annotation \<Rightarrow> unified_record" where
  "append_annotation entry a = entry\<lparr>spatial_annotations := spatial_annotations entry @ [a]\<rparr>"

text \<open>
  The \<^verbatim>\<open>if\<close>/\<^verbatim>\<open>elif\<close> chain on \<^verbatim>\<open>item["task_type"]\<close>. It has no \<^verbatim>\<open>else\<close>: for any other
  task type the entry and \<^verbatim>\<open>gpt_resp\<close> are left as they were.
\<close>

definition dispatch ::
  "(pyfloat \<Rightarrow> string) \<Rightarrow> raw_sample \<Rightarrow> int \<Rightarrow> int \<Rightarrow> unified_record \<Rightarrow> string option
     \<Rightarrow> error + unified_record \<times> string option" where
  "dispatch repr item w h entry resp =
     (let raw_data = item_data item
      in if item_task_type item = ''detection'' then
           ebind (getitem raw_data ''bbox'') (\<lambda>bbox.
           ebind (normalize_coords bbox w h ''bbox'') (\<lambda>norm_box.
           Inr (append_annotation entry
                  \<lparr>ann_type = ''bbox'', ann_value = norm_box, ann_label = item_label item\<rparr>,
                Some (''Found at <box>'' @ py_str repr norm_box @ ''</box>.''))))
         else if item_task_type item = ''trajectory'' then
           ebind (getitem raw_data ''points'') (\<lambda>points.
           ebind (normalize_coords points w h ''trajectory'') (\<lambda>norm_traj.
           Inr (append_annotation entry
                  \<lparr>ann_type = ''trajectory'', ann_value = norm_traj, ann_label = item_label item\<rparr>,
                Some (''Trajectory path: <traj>'' @ py_str repr norm_traj @ ''</traj>.''))))
         else if item_task_type item = ''affordance'' then
           ebind (getitem raw_data ''point'') (\<lambda>point.
           ebind (normalize_coords point w h ''point'') (\<lambda>norm_point.
           Inr (append_annotation entry
                  \<lparr>ann_type = ''point'', ann_value = norm_point, ann_label = item_label item\<rparr>,
                Some (''Interact at point: <point>'' @ py_str repr norm_point @ ''</point>.''))))
         else Inr (entry, resp))"

text \<open>Reading \<^verbatim>\<open>gpt_resp\<close> while it is unbound raises.\<close>

definition fill_conversations ::
  "raw_sample \<Rightarrow> unified_record \<Rightarrow> string option \<Rightarrow> error + unified_record" where
  "fill_conversations item entry resp =
     (case resp of
        None \<Rightarrow> Inl UnboundLocalError
      | Some g \<Rightarrow>
          Inr (entry\<lparr>conversations :=
                 [\<lparr>turn_from = ''human'', turn_value = item_instruction item\<rparr>,
                  \<lparr>turn_from = ''gpt'', turn_value = g\<rparr>]\<rparr>))"

definition save_name :: "raw_sample \<Rightarrow> string" where
  "save_name item = ''verify_'' @ item_task_type item @ ''.png''"

text \<open>The body of the loop for a sample whose image arrived.\<close>

definition process_item ::
  "(pyfloat \<Rightarrow> string) \<Rightarrow> raw_sample \<Rightarrow> image \<Rightarrow> locals \<Rightarrow> error + locals" where
  "process_item repr item img st =
     (case img of (w, h) \<Rightarrow>
        ebind (dispatch repr item w h (new_entry item w h) (gpt_resp st)) (\<lambda>(entry, resp).
        ebind (fill_conversations item entry resp) (\<lambda>entry'.
        ebind (visualize_task item (save_name item)) (\<lambda>u.
        Inr \<lparr>unified_data = unified_data st @ [entry'],
             gpt_resp = resp,
             rendered = rendered st @ [(item, save_name item)]\<rparr>))))"

text \<open>
  The \<^verbatim>\<open>for\<close> loop. A sample without an image is passed over by \<^verbatim>\<open>continue\<close>; an
  exception in the body ends the loop and the run.
\<close>

fun pipeline_loop ::
  "(string \<Rightarrow> error + image) \<Rightarrow> (pyfloat \<Rightarrow> string) \<Rightarrow> raw_sample list \<Rightarrow> locals
     \<Rightarrow> error + locals" where
  "pipeline_loop fetch repr [] st = Inr st"
| "pipeline_loop fetch repr (item # items) st =
     (case download_image fetch (item_url item) of
        None \<Rightarrow> pipeline_loop fetch repr items st
      | Some img \<Rightarrow>
          ebind (process_item repr item img st) (pipeline_loop fetch repr items))"

definition newline :: char where
  "newline = CHR 0x0A"

definition initial :: locals where
  "initial = \<lparr>unified_data = [], gpt_resp = None, rendered = []\<rparr>"

text \<open>The text written to \<^verbatim>\<open>unified_multimodal_data.jsonl\<close>, one \<^verbatim>\<open>write\<close> per record.\<close>

definition write_jsonl :: "(unified_record \<Rightarrow> string) \<Rightarrow> unified_record list \<Rightarrow> string" where
  "write_jsonl dumps ds = concat (map (\<lambda>d. dumps d @ [newline]) ds)"

text \<open>
  The whole run. The sample list is the argument (the source reads the module constant
  \<^verbatim>\<open>REAL_SAMPLES\<close>, defined below), \<open>dumps\<close> is \<^verbatim>\<open>json.dumps\<close>. The file is opened only after
  the loop, so a run that raises writes nothing.
\<close>

definition run_multimodal_pipeline ::
  "(string \<Rightarrow> error + image) \<Rightarrow> (pyfloat \<Rightarrow> string) \<Rightarrow> (unified_record \<Rightarrow> string)
     \<Rightarrow> raw_sample list \<Rightarrow> error + outcome" where
  "run_multimodal_pipeline fetch repr dumps samples =
     ebind (pipeline_loop fetch repr samples initial) (\<lambda>st.
     Inr \<lparr>jsonl = write_jsonl dumps (unified_data st), figures = rendered st\<rparr>)"

definition REAL_SAMPLES :: "raw_sample list" where
  "REAL_SAMPLES =
     [\<lparr>item_id = ''task_bbox_cat'',
       item_url = ''http://images.cocodataset.org/val2017/000000039769.jpg'',
       item_task_type = ''detection'',
       item_label = ''cat'',
       item_data = [''bbox'' \<mapsto> Seq [Num 14, Num 3, Num 310, Num 477]],
       item_instruction = ''Detect the cat.''\<rparr>,
      \<lparr>item_id = ''task_traj_skier'',
       item_url = ''http://images.cocodataset.org/val2017/000000000785.jpg'',
       item_task_type = ''trajectory'',
       item_label = ''skier_path'',
       item_data = [''points'' \<mapsto>
         Seq [Seq [Num 250, Num 20], Seq [Num 260, Num 100], Seq [Num 280, Num 200],
              Seq [Num 300, Num 300], Seq [Num 220, Num 350]]],
       item_instruction = ''Predict the future trajectory of the skier.''\<rparr>,
      \<lparr>item_id = ''task_affordance_sign'',
       item_url = ''http://images.cocodataset.org/val2017/000000000724.jpg'',
       item_task_type = ''affordance'',
       item_label = ''stop_sign_center'',
       item_data = [''point'' \<mapsto> Seq [Num 343, Num 202]],
       item_instruction = ''Where is the center of the stop sign for interaction?''\<rparr>]"

section \<open>Vocabulary of the claims about the driver\<close>

text \<open>The closed set of task types, and what the dispatch pairs with each.\<close>

definition known_task :: "string \<Rightarrow> bool" where
  "known_task task = (task = ''detection'' \<or> task = ''trajectory'' \<or> task = ''affordance'')"

definition payload_key :: "string \<Rightarrow> string" where
  "payload_key task =
     (if task = ''detection'' then ''bbox''
      else if task = ''trajectory'' then ''points'' else ''point'')"

definition normalized_kind :: "string \<Rightarrow> string" where
  "normalized_kind task =
     (if task = ''detection'' then ''bbox''
      else if task = ''trajectory'' then ''trajectory'' else ''point'')"

text \<open>A text inside the marker of a kind.\<close>

definition tagged :: "string \<Rightarrow> string \<Rightarrow> string" where
  "tagged kind txt =
     (if kind = ''bbox'' then ''<box>'' @ txt @ ''</box>''
      else if kind = ''trajectory'' then ''<traj>'' @ txt @ ''</traj>''
      else ''<point>'' @ txt @ ''</point>'')"

text \<open>
  Payloads as the data model describes them: a box of four ints, a point of two ints, a
  sequence of points; every dividend of the normalization within the range of a double.
\<close>

fun is_box :: "coords \<Rightarrow> bool" where
  "is_box (Seq [Num x, Num y, Num bw, Num bh]) =
     (fits_double x \<and> fits_double y \<and> fits_double (x + bw) \<and> fits_double (y + bh))"
| "is_box c = False"

fun is_point :: "coords \<Rightarrow> bool" where
  "is_point (Seq [Num x, Num y]) = (fits_double x \<and> fits_double y)"
| "is_point c = False"

fun is_points :: "coords \<Rightarrow> bool" where
  "is_points (Seq ps) = list_all is_point ps"
| "is_points (Num n) = False"

definition well_formed :: "raw_sample \<Rightarrow> bool" where
  "well_formed item =
     (if item_task_type item = ''detection'' then
        (case item_data item ''bbox'' of None \<Rightarrow> False | Some c \<Rightarrow> is_box c)
      else if item_task_type item = ''trajectory'' then
        (case item_data item ''points'' of None \<Rightarrow> False | Some c \<Rightarrow> is_points c)
      else if item_task_type item = ''affordance'' then
        (case item_data item ''point'' of None \<Rightarrow> False | Some c \<Rightarrow> is_point c)
      else False)"

text \<open>The samples whose image arrives.\<close>

definition fetched :: "(string \<Rightarrow> error + image) \<Rightarrow> raw_sample \<Rightarrow> bool" where
  "fetched fetch item = (download_image fetch (item_url item) \<noteq> None)"

text \<open>
  A sample the loop body can process: if its image arrives, the image has positive
  dimensions and the sample is well formed.
\<close>

definition processable :: "(string \<Rightarrow> error + image) \<Rightarrow> raw_sample \<Rightarrow> bool" where
  "processable fetch item =
     (case download_image fetch (item_url item) of
        None \<Rightarrow> True
      | Some (w, h) \<Rightarrow> 0 < w \<and> 0 < h \<and> well_formed item)"

text \<open>
  \<open>emitted repr item img entry\<close>: the record \<open>entry\<close> is what the data model asks of the
  record of \<open>item\<close> with image \<open>img\<close>. It carries the sample's id, one annotation whose
  type is the normalized kind and whose value is the normalized payload, and two turns, a
  human one with the instruction and a gpt one whose text holds the value inside the
  marker of the kind.
\<close>

definition emitted ::
  "(pyfloat \<Rightarrow> string) \<Rightarrow> raw_sample \<Rightarrow> image \<Rightarrow> unified_record \<Rightarrow> bool" where
  "emitted repr item img entry =
     (\<exists>v pre post.
        ebind (getitem (item_data item) (payload_key (item_task_type item)))
          (\<lambda>c. normalize_coords c (fst img) (snd img) (normalized_kind (item_task_type item)))
          = Inr v
        \<and> entry_id entry = item_id item
        \<and> spatial_annotations entry =
            [\<lparr>ann_type = normalized_kind (item_task_type item), ann_value = v,
              ann_label = item_label item\<rparr>]
        \<and> conversations entry =
            [\<lparr>turn_from = ''human'', turn_value = item_instruction item\<rparr>,
             \<lparr>turn_from = ''gpt'',
              turn_value = pre @ tagged (normalized_kind (item_task_type item)) (py_str repr v)
                           @ post\<rparr>])"

text \<open>The record of a sample whose image arrived.\<close>

definition record_of ::
  "(string \<Rightarrow> error + image) \<Rightarrow> (pyfloat \<Rightarrow> string) \<Rightarrow> raw_sample \<Rightarrow> unified_record \<Rightarrow> bool" where
  "record_of fetch repr item entry =
     (\<exists>img. download_image fetch (item_url item) = Some img \<and> emitted repr item img entry)"

text \<open>The lines of a text: the pieces that end at a line break, and a last unended one.\<close>

fun lines_from :: "string \<Rightarrow> string \<Rightarrow> string list" where
  "lines_from cur [] = (if cur = [] then [] else [cur])"
| "lines_from cur (c # cs) =
     (if c = newline then cur # lines_from [] cs else lines_from (cur @ [c]) cs)"

definition file_lines :: "string \<Rightarrow> string list" where
  "file_lines s = lines_from [] s"

section \<open>Inputs for the examples\<close>

text \<open>
  A network on which the second image of \<^verbatim>\<open>REAL_SAMPLES\<close> cannot be fetched and every other
  image is \<open>640 \<times> 480\<close>; a stand-in for \<^verbatim>\<open>float.__repr__\<close>; a stand-in for \<^verbatim>\<open>json.dumps\<close>
  that, like it, never puts a line break in its output; and a sample of a task type
  outside the closed set.
\<close>

definition example_fetch :: "string \<Rightarrow> error + image" where
  "example_fetch url =
     (if url = ''http://images.cocodataset.org/val2017/000000000785.jpg'' then Inl OSError
      else Inr (640, 480))"

definition example_repr :: "pyfloat \<Rightarrow> string" where
  "example_repr f = (if negative f then ''-'' else []) @ ''0.0''"

definition example_dumps :: "unified_record \<Rightarrow> string" where
  "example_dumps d = filter (\<lambda>c. c \<noteq> newline) (entry_id d)"

definition example_unknown :: raw_sample where
  "example_unknown =
     \<lparr>item_id = ''task_mask_cat'',
      item_url = ''http://images.cocodataset.org/val2017/000000039769.jpg'',
      item_task_type = ''segmentation'',
      item_label = ''cat'',
      item_data = [''mask'' \<mapsto> Seq [Num 14, Num 3]],
      item_instruction = ''Segment the cat.''\<rparr>"

section \<open>Facts about the float arithmetic\<close>

lemma floor_rat_numeral: "\<lfloor>numeral a / numeral b :: rat\<rfloor> = numeral a div numeral b"
  using floor_divide_of_int_eq [of "numeral a" "numeral b", where ?'a = rat] by simp

lemma pow2_pos: "0 < pow2 e"
  by (simp add: pow2_def)

lemma pow2_nonneg_int: "0 \<le> e \<Longrightarrow> pow2 e = of_int (2 ^ nat e)"
  by (simp add: pow2_def)

lemma pow2_neg_inverse: "e \<le> 0 \<Longrightarrow> 1 / pow2 e = of_int (2 ^ nat (- e))"
  by (cases "e = 0") (simp_all add: pow2_def)

lemma pow2_mono: "a \<le> b \<Longrightarrow> pow2 a \<le> pow2 b"
proof -
  assume ab: "a \<le> b"
  have eq: "pow2 e = 2 powi e" for e
    by (simp add: pow2_def power_int_def field_simps)
  show ?thesis unfolding eq using ab by (intro power_int_increasing) auto
qed

lemma round_half_even_upper: "of_int (round_half_even q) \<le> q + 1 / 2"
  unfolding round_half_even_def Let_def by (auto; linarith)

lemma round_half_even_le: "q \<le> of_int n \<Longrightarrow> round_half_even q \<le> n"
proof -
  assume qn: "q \<le> of_int n"
  have fl: "\<lfloor>q\<rfloor> \<le> n" using qn by (simp add: floor_le_iff)
  show ?thesis
  proof (cases "\<lfloor>q\<rfloor> = n")
    case True
    then have "q = of_int n" using qn of_int_floor_le [of q] by simp
    then show ?thesis by (simp add: round_half_even_def Let_def)
  next
    case False
    then have "\<lfloor>q\<rfloor> + 1 \<le> n" using fl by simp
    then show ?thesis unfolding round_half_even_def Let_def by auto
  qed
qed

lemma round_half_even_nonneg: "0 \<le> q \<Longrightarrow> 0 \<le> round_half_even q"
  unfolding round_half_even_def Let_def by auto

lemma pow2_powi: "pow2 e = 2 powi e"
  by (simp add: pow2_def power_int_def field_simps)

lemma pow2_diff: "pow2 (a - b) = pow2 a / pow2 b"
  by (simp add: pow2_powi power_int_diff)

lemma pow2_Suc: "pow2 (e + 1) = 2 * pow2 e"
  by (simp add: pow2_powi power_int_add)

lemma bitlen_mono: "a \<le> b \<Longrightarrow> bitlen a \<le> bitlen b"
  by (simp add: bitlen_def floorlog_mono)

lemma binary_exponent_le_bitlen: "binary_exponent a b \<le> bitlen a - bitlen b"
  by (simp add: binary_exponent_def Let_def)

lemma binary_exponent_nonpos: "a \<le> b \<Longrightarrow> binary_exponent a b \<le> 0"
  using binary_exponent_le_bitlen [of a b] bitlen_mono [of a b] by simp

lemma binary_exponent_lower:
  assumes a: "0 < a" and b: "0 < b"
  shows "pow2 (binary_exponent a b) \<le> of_int a / of_int b"
proof (cases "pow2 (bitlen a - bitlen b) * of_int b \<le> of_int a")
  case True
  then have "binary_exponent a b = bitlen a - bitlen b"
    by (simp add: binary_exponent_def Let_def)
  then show ?thesis using True b by (simp add: pos_le_divide_eq)
next
  case False
  then have e: "binary_exponent a b = bitlen a - bitlen b - 1"
    by (simp add: binary_exponent_def Let_def)
  have la: "1 \<le> bitlen a" using a bitlen_eq_zero_iff [of a] bitlen_nonneg [of a] by linarith
  have lb: "0 \<le> bitlen b" by (rule bitlen_nonneg)
  have "(2::int) ^ nat (bitlen a - 1) \<le> a" using bitlen_bounds [OF a] by simp
  then have "(of_int ((2::int) ^ nat (bitlen a - 1)) :: rat) \<le> of_int a"
    by (simp only: of_int_le_iff)
  then have A: "pow2 (bitlen a - 1) \<le> of_int a" using la by (simp add: pow2_def)
  have "b < 2 ^ nat (bitlen b)" using bitlen_bounds [OF b] by simp
  then have "(of_int b :: rat) < of_int (2 ^ nat (bitlen b))"
    by (simp only: of_int_less_iff)
  then have B: "of_int b \<le> pow2 (bitlen b)" using lb by (simp add: pow2_def)
  have "pow2 (bitlen a - 1 - bitlen b) = pow2 (bitlen a - 1) / pow2 (bitlen b)"
    by (rule pow2_diff)
  also have "\<dots> \<le> of_int a / pow2 (bitlen b)"
    using A pow2_pos [of "bitlen b"] by (simp add: divide_right_mono)
  also have "\<dots> \<le> of_int a / of_int b"
    using B a b by (simp add: frac_le)
  finally have "pow2 (bitlen a - 1 - bitlen b) \<le> of_int a / of_int b" .
  moreover have "bitlen a - 1 - bitlen b = binary_exponent a b" using e by simp
  ultimately show ?thesis by simp
qed

lemma nearest_double_nonneg:
  "0 \<le> a \<Longrightarrow> 0 < b \<Longrightarrow> 0 \<le> nearest_double a b"
  using pow2_pos by (simp add: nearest_double_def Let_def round_half_even_nonneg less_imp_le)

lemma nearest_double_le_one:
  assumes a: "0 \<le> a" and ab: "a \<le> b" and b: "0 < b"
  shows "nearest_double a b \<le> 1"
proof (cases "a = 0")
  case True
  then show ?thesis by (simp add: nearest_double_def)
next
  case False
  define p where "p = max (binary_exponent a b) (- 1022) - 52"
  have p0: "p \<le> 0" using binary_exponent_nonpos [OF ab] by (simp add: p_def)
  have q1: "of_int a / of_int b \<le> (1::rat)" using ab b by simp
  have "of_int a / of_int b / pow2 p \<le> 1 / pow2 p"
    by (rule divide_right_mono [OF q1 less_imp_le [OF pow2_pos]])
  also have "\<dots> = of_int (2 ^ nat (- p))" using p0 by (rule pow2_neg_inverse)
  finally have "round_half_even (of_int a / of_int b / pow2 p) \<le> 2 ^ nat (- p)"
    by (rule round_half_even_le)
  then have "(of_int (round_half_even (of_int a / of_int b / pow2 p)) :: rat) \<le> of_int (2 ^ nat (- p))"
    by (simp only: of_int_le_iff)
  then have "of_int (round_half_even (of_int a / of_int b / pow2 p)) \<le> 1 / pow2 p"
    using pow2_neg_inverse [OF p0] by simp
  then have "of_int (round_half_even (of_int a / of_int b / pow2 p)) * pow2 p \<le> 1"
    using pow2_pos [of p] by (simp add: pos_le_divide_eq)
  then show ?thesis using False by (simp add: nearest_double_def Let_def p_def)
qed

lemma nearest_double_in_range:
  assumes a: "0 \<le> a" and a': "a < 2 ^ 1023" and b: "0 < b"
  shows "nearest_double a b < pow2 1024"
proof (cases "a = 0")
  case True
  then show ?thesis using pow2_pos [of 1024] by (simp add: nearest_double_def)
next
  case False
  then have apos: "0 < a" using a by simp
  define e where "e = binary_exponent a b"
  define p where "p = max e (- 1022) - 52"
  define q :: rat where "q = of_int a / of_int b"
  have "(of_int a :: rat) < of_int (2 ^ 1023)" using a' by (simp only: of_int_less_iff)
  then have alt: "(of_int a :: rat) < pow2 1023" by (simp add: pow2_def)
  have "q \<le> of_int a"
  proof -
    have "(1::rat) \<le> of_int b" using b by simp
    then have "of_int a / of_int b \<le> (of_int a :: rat) / 1"
      using a by (intro divide_left_mono) simp_all
    then show ?thesis by (simp add: q_def)
  qed
  then have qlt: "q < pow2 1023" using alt by simp
  have "pow2 e \<le> q" unfolding e_def q_def by (rule binary_exponent_lower [OF apos b])
  then have "pow2 e < pow2 1023" using qlt by simp
  then have "e < 1023" using pow2_mono [of 1023 e] by (cases "e < 1023") auto
  then have "p \<le> 970" by (simp add: p_def)
  then have pp: "pow2 p \<le> pow2 970" by (rule pow2_mono)
  have "pow2 970 \<le> pow2 1023" by (rule pow2_mono) simp
  then have pp': "pow2 p \<le> pow2 1023" using pp by simp
  have "of_int (round_half_even (q / pow2 p)) \<le> q / pow2 p + 1 / 2"
    by (rule round_half_even_upper)
  then have "of_int (round_half_even (q / pow2 p)) * pow2 p \<le> (q / pow2 p + 1 / 2) * pow2 p"
    using pow2_pos [of p] by (simp add: mult_right_mono)
  also have "\<dots> = q + pow2 p / 2" using pow2_pos [of p] by (simp add: field_simps)
  also have "\<dots> < pow2 1023 + pow2 1023" using qlt pp' pow2_pos [of p] by linarith
  also have "\<dots> = pow2 1024" using pow2_Suc [of 1023] by simp
  finally show ?thesis using False by (simp add: nearest_double_def Let_def p_def e_def q_def)
qed

lemma true_divide_in_range:
  assumes w: "0 < w" and x: "fits_double x"
  shows "true_divide x w = Inr (float_div x w)"
proof -
  have "nearest_double \<bar>x\<bar> \<bar>w\<bar> < pow2 1024"
    using x w by (intro nearest_double_in_range) (simp_all add: fits_double_def)
  then show ?thesis using w by (simp add: true_divide_def float_div_def Let_def)
qed

section \<open>Normalizing well-formed payloads\<close>

lemma ebind_Inr [simp]: "ebind (Inr v) f = f v"
  by (simp add: ebind_def)

lemma ebind_Inl [simp]: "ebind (Inl e) f = Inl e"
  by (simp add: ebind_def)

lemma round_div_in_range:
  "0 < w \<Longrightarrow> fits_double x \<Longrightarrow> round_div (Num x) w = Inr (rounded_quotient x w)"
  by (simp add: round_div_def true_divide_in_range rounded_quotient_def)

lemma normalize_pair_in_range:
  assumes "0 < w" "0 < h" "fits_double x" "fits_double y"
  shows "normalize_pair (Seq [Num x, Num y]) w h
           = Inr (ListV [rounded_quotient x w, rounded_quotient y h])"
  using assms by (simp add: normalize_pair_def round_div_in_range)

lemma normalize_each_in_range:
  assumes "0 < w" "0 < h"
  shows "list_all (\<lambda>p. fits_double (fst p) \<and> fits_double (snd p)) pts \<Longrightarrow>
         normalize_each (map point_coords pts) w h
           = Inr (map (\<lambda>p. ListV [rounded_quotient (fst p) w, rounded_quotient (snd p) h]) pts)"
proof (induction pts)
  case Nil
  show ?case by simp
next
  case (Cons p pts)
  then show ?case using assms
    by (simp add: point_coords_def normalize_pair_in_range)
qed

lemmas float_eval = nearest_double_def binary_exponent_def pow2_def round_half_even_def
  compute_bitlen Let_def floor_rat_numeral

lemma rounded_quotient_100_400: "rounded_quotient 100 400 = FloatV (decimal3 250)"
  by (simp add: rounded_quotient_def round3_def float_div_def decimal3_def float_eval)

lemma rounded_quotient_300_400: "rounded_quotient 300 400 = FloatV (decimal3 750)"
  by (simp add: rounded_quotient_def round3_def float_div_def decimal3_def float_eval)

lemma rounded_quotient_343_640: "rounded_quotient 343 640 = FloatV (decimal3 536)"
  by (simp add: rounded_quotient_def round3_def float_div_def decimal3_def float_eval)

lemma rounded_quotient_202_480: "rounded_quotient 202 480 = FloatV (decimal3 421)"
  by (simp add: rounded_quotient_def round3_def float_div_def decimal3_def float_eval)

lemma decimal3_values: "decimal3 250 = Float False (1 / 4)" "decimal3 750 = Float False (3 / 4)"
  "decimal3 536 = Float False (1206964700135293 / 2251799813685248)"
  "decimal3 421 = Float False (7584061772491915 / 18014398509481984)"
  by (simp_all add: decimal3_def float_eval)

lemma fits_double_examples: "fits_double 100" "fits_double 343"
  by (simp_all add: fits_double_def)

section \<open>Properties of \<^verbatim>\<open>normalize_coords\<close>\<close>

text \<open>
  C1. For a bbox \<^verbatim>\<open>[x, y, w, h]\<close> of ints and positive image dimensions, the bbox kind
  returns the two-corner box \<^verbatim>\<open>[round(x/width, 3), round(y/height, 3),
  round((x+w)/width, 3), round((y+h)/height, 3)]\<close>; and \<^verbatim>\<open>[100, 100, 200, 200]\<close> on a
  \<open>400 \<times> 400\<close> image gives \<^verbatim>\<open>[0.25, 0.25, 0.75, 0.75]\<close>. The dividends are taken within
  the range of a double, where \<^verbatim>\<open>x / width\<close> has a value.
\<close>

theorem bbox_two_corner:
  assumes "0 < w" and "0 < h"
    and "fits_double x" and "fits_double y"
    and "fits_double (x + bw)" and "fits_double (y + bh)"
  shows "normalize_coords (Seq [Num x, Num y, Num bw, Num bh]) w h ''bbox''
           = Inr (ListV [rounded_quotient x w, rounded_quotient y h,
                         rounded_quotient (x + bw) w, rounded_quotient (y + bh) h])
         \<and> normalize_coords (Seq [Num 100, Num 100, Num 200, Num 200]) 400 400 ''bbox''
           = Inr (ListV [FloatV (decimal3 250), FloatV (decimal3 250),
                         FloatV (decimal3 750), FloatV (decimal3 750)])"
proof
  show "normalize_coords (Seq [Num x, Num y, Num bw, Num bh]) w h ''bbox''
           = Inr (ListV [rounded_quotient x w, rounded_quotient y h,
                         rounded_quotient (x + bw) w, rounded_quotient (y + bh) h])"
    using assms by (simp add: normalize_coords_def round_div_in_range)
  have "fits_double 300" by (simp add: fits_double_def)
  then show "normalize_coords (Seq [Num 100, Num 100, Num 200, Num 200]) 400 400 ''bbox''
           = Inr (ListV [FloatV (decimal3 250), FloatV (decimal3 250),
                         FloatV (decimal3 750), FloatV (decimal3 750)])"
    by (simp add: normalize_coords_def round_div_in_range fits_double_examples rounded_quotient_100_400 rounded_quotient_300_400)
qed

theorem bbox_two_corner_witness:
  "normalize_coords (Seq [Num 14, Num 3, Num 310, Num 477]) 640 480 ''bbox''
     = Inr (ListV [rounded_quotient 14 640, rounded_quotient 3 480,
                   rounded_quotient 324 640, rounded_quotient 480 480])"
  using bbox_two_corner [of 640 480 14 3 310 477] by (simp add: fits_double_def)

text \<open>
  C4. For a point \<^verbatim>\<open>[x, y]\<close> of ints and positive image dimensions, the point kind returns
  \<^verbatim>\<open>[round(x/width, 3), round(y/height, 3)]\<close>; and \<^verbatim>\<open>[343, 202]\<close> on a \<open>640 \<times> 480\<close>
  image gives \<^verbatim>\<open>[0.536, 0.421]\<close>.
\<close>

theorem point_normalized:
  assumes "0 < w" and "0 < h" and "fits_double x" and "fits_double y"
  shows "normalize_coords (Seq [Num x, Num y]) w h ''point''
           = Inr (ListV [rounded_quotient x w, rounded_quotient y h])
         \<and> normalize_coords (Seq [Num 343, Num 202]) 640 480 ''point''
           = Inr (ListV [FloatV (decimal3 536), FloatV (decimal3 421)])"
proof
  show "normalize_coords (Seq [Num x, Num y]) w h ''point''
           = Inr (ListV [rounded_quotient x w, rounded_quotient y h])"
    using assms by (simp add: normalize_coords_def normalize_pair_in_range)
  have "fits_double 202" by (simp add: fits_double_def)
  then show "normalize_coords (Seq [Num 343, Num 202]) 640 480 ''point''
           = Inr (ListV [FloatV (decimal3 536), FloatV (decimal3 421)])"
    by (simp add: normalize_coords_def normalize_pair_in_range fits_double_examples rounded_quotient_343_640 rounded_quotient_202_480)
qed

theorem point_normalized_witness:
  "normalize_coords (Seq [Num 5, Num 7]) 10 20 ''point''
     = Inr (ListV [rounded_quotient 5 10, rounded_quotient 7 20])"
  using point_normalized [of 10 20 5 7] by (simp add: fits_double_def)

text \<open>
  C3. For a sequence of \<open>N\<close> points and positive image dimensions, the trajectory kind
  returns the sequence of the \<open>N\<close> pairs \<^verbatim>\<open>[round(x_i/width, 3), round(y_i/height, 3)]\<close>,
  in the order of the input.
\<close>

theorem trajectory_shape:
  assumes "0 < w" and "0 < h"
    and "list_all (\<lambda>p. fits_double (fst p) \<and> fits_double (snd p)) pts"
  shows "normalize_coords (Seq (map point_coords pts)) w h ''trajectory''
           = Inr (ListV (map (\<lambda>p. ListV [rounded_quotient (fst p) w, rounded_quotient (snd p) h]) pts))"
  using assms by (simp add: normalize_coords_def normalize_each_in_range)

theorem trajectory_shape_witness:
  "normalize_coords (Seq [Seq [Num 250, Num 20], Seq [Num 260, Num 100]]) 640 425 ''trajectory''
     = Inr (ListV [ListV [rounded_quotient 250 640, rounded_quotient 20 425],
                   ListV [rounded_quotient 260 640, rounded_quotient 100 425]])"
  using trajectory_shape [of 640 425 "[(250, 20), (260, 100)]"]
  by (simp add: fits_double_def point_coords_def)

text \<open>
  C6, as the code has it. For a kind other than \<^verbatim>\<open>bbox\<close>, \<^verbatim>\<open>point\<close> and \<^verbatim>\<open>trajectory\<close>,
  \<^verbatim>\<open>normalize_coords\<close> raises nothing and returns \<^verbatim>\<open>None\<close>, whatever the coordinates and
  the dimensions are.
\<close>

theorem unknown_kind_returns_none:
  assumes "type \<noteq> ''bbox''" and "type \<noteq> ''point''" and "type \<noteq> ''trajectory''"
  shows "normalize_coords coords w h type = Inr NoneV"
  using assms by (simp add: normalize_coords_def)

theorem unknown_kind_returns_none_witness:
  "normalize_coords (Num 7) 0 0 ''polygon'' = Inr NoneV"
  using unknown_kind_returns_none [of "''polygon''" "Num 7" 0 0] by simp

text \<open>
  The claim that an unrecognized kind fails with an error does not hold: the kind
  \<^verbatim>\<open>polygon\<close> returns \<^verbatim>\<open>None\<close>.
\<close>

theorem unknown_kind_counterexample:
  "normalize_coords (Seq [Num 10, Num 20]) 100 100 ''polygon'' = Inr NoneV"
  by (simp add: normalize_coords_def)

text \<open>
  C10. For all image dimensions, positive ones among them, the trajectory kind applied to
  the empty sequence returns the empty sequence and raises nothing.
\<close>

theorem trajectory_empty:
  "normalize_coords (Seq []) w h ''trajectory'' = Inr (ListV [])"
  by (simp add: normalize_coords_def ebind_def)

section \<open>Bounds of the normalized values\<close>

lemma one_less_pow2_1024: "1 < pow2 1024"
proof -
  have "pow2 1 \<le> pow2 1024" by (rule pow2_mono) simp
  then show ?thesis by (simp add: pow2_def)
qed

lemma true_divide_inside:
  assumes "0 \<le> x" and "x \<le> w" and "0 < w"
  shows "true_divide x w = Inr (Float False (nearest_double x w))"
proof -
  have "nearest_double x w \<le> 1" using assms by (intro nearest_double_le_one)
  then have "nearest_double x w < pow2 1024" using one_less_pow2_1024 by simp
  then show ?thesis using assms by (simp add: true_divide_def float_div_def Let_def)
qed

lemma round3_unit:
  assumes "0 \<le> m" and "m \<le> 1"
  shows "in_unit_interval (round3 (Float False m))"
proof -
  define n where "n = round_half_even (m * 1000)"
  have n0: "0 \<le> n" unfolding n_def using assms by (intro round_half_even_nonneg) simp
  have "m * 1000 \<le> of_int 1000" using assms by simp
  then have n1: "n \<le> 1000" unfolding n_def by (rule round_half_even_le)
  have "0 \<le> nearest_double n 1000" using n0 by (intro nearest_double_nonneg) simp_all
  moreover have "nearest_double n 1000 \<le> 1" using n0 n1 by (intro nearest_double_le_one) simp_all
  ultimately show ?thesis by (simp add: in_unit_interval_def round3_def fval_def n_def)
qed

lemma round_div_inside:
  assumes "0 \<le> x" and "x \<le> w" and "0 < w"
  shows "\<exists>f. round_div (Num x) w = Inr (FloatV f) \<and> in_unit_interval f"
proof -
  have "0 \<le> nearest_double x w" using assms by (intro nearest_double_nonneg)
  moreover have "nearest_double x w \<le> 1" using assms by (intro nearest_double_le_one)
  ultimately have "in_unit_interval (round3 (Float False (nearest_double x w)))"
    by (rule round3_unit)
  then show ?thesis using assms by (simp add: round_div_def true_divide_inside)
qed

lemma normalize_pair_inside:
  assumes "0 < w" and "0 < h" and "0 \<le> x" and "x \<le> w" and "0 \<le> y" and "y \<le> h"
  shows "\<exists>v. normalize_pair (Seq [Num x, Num y]) w h = Inr v
             \<and> list_all in_unit_interval (scalars v)"
proof -
  obtain a where a: "round_div (Num x) w = Inr (FloatV a)" "in_unit_interval a"
    using round_div_inside [of x w] assms by blast
  obtain b where b: "round_div (Num y) h = Inr (FloatV b)" "in_unit_interval b"
    using round_div_inside [of y h] assms by blast
  show ?thesis using a b by (simp add: normalize_pair_def)
qed

lemma normalize_each_inside:
  assumes "0 < w" and "0 < h"
  shows "list_all (\<lambda>p. 0 \<le> fst p \<and> fst p \<le> w \<and> 0 \<le> snd p \<and> snd p \<le> h) pts \<Longrightarrow>
         \<exists>vs. normalize_each (map point_coords pts) w h = Inr vs
              \<and> list_all in_unit_interval (concat (map scalars vs))"
proof (induction pts)
  case Nil
  show ?case by simp
next
  case (Cons p pts)
  obtain v where v: "normalize_pair (point_coords p) w h = Inr v"
      "list_all in_unit_interval (scalars v)"
    using normalize_pair_inside [of w h "fst p" "snd p"] assms Cons.prems
    by (auto simp: point_coords_def)
  obtain vs where vs: "normalize_each (map point_coords pts) w h = Inr vs"
      "list_all in_unit_interval (concat (map scalars vs))"
    using Cons by auto
  show ?case using v vs by simp
qed

lemma bbox_inside:
  assumes "0 < w" and "0 < h"
    and "0 \<le> x" and "0 \<le> bw" and "x + bw \<le> w"
    and "0 \<le> y" and "0 \<le> bh" and "y + bh \<le> h"
  shows "\<exists>v. normalize_coords (Seq [Num x, Num y, Num bw, Num bh]) w h ''bbox'' = Inr v
             \<and> list_all in_unit_interval (scalars v)"
proof -
  obtain a where a: "round_div (Num x) w = Inr (FloatV a)" "in_unit_interval a"
    using round_div_inside [of x w] assms by force
  obtain b where b: "round_div (Num y) h = Inr (FloatV b)" "in_unit_interval b"
    using round_div_inside [of y h] assms by force
  obtain c where c: "round_div (Num (x + bw)) w = Inr (FloatV c)" "in_unit_interval c"
    using round_div_inside [of "x + bw" w] assms by force
  obtain d where d: "round_div (Num (y + bh)) h = Inr (FloatV d)" "in_unit_interval d"
    using round_div_inside [of "y + bh" h] assms by force
  show ?thesis using a b c d by (simp add: normalize_coords_def)
qed

text \<open>
  C2, as the code has it. For positive image dimensions, every float of the result lies
  in \<open>[0, 1]\<close>: for the point and trajectory kinds when every \<open>x\<close> is in \<open>[0, width]\<close> and
  every \<open>y\<close> in \<open>[0, height]\<close>; for the bbox kind when \<open>x\<close>, \<open>y\<close>, \<open>w\<close>, \<open>h\<close> are not negative
  and the far corner is inside the image, \<open>x + w \<le> width\<close> and \<open>y + h \<le> height\<close>.
\<close>

theorem normalized_in_unit_interval:
  assumes "0 < w" and "0 < h"
  shows "(0 \<le> x \<and> 0 \<le> bw \<and> x + bw \<le> w \<and> 0 \<le> y \<and> 0 \<le> bh \<and> y + bh \<le> h \<longrightarrow>
            (\<exists>v. normalize_coords (Seq [Num x, Num y, Num bw, Num bh]) w h ''bbox'' = Inr v
                \<and> list_all in_unit_interval (scalars v)))
       \<and> (0 \<le> px \<and> px \<le> w \<and> 0 \<le> py \<and> py \<le> h \<longrightarrow>
            (\<exists>v. normalize_coords (Seq [Num px, Num py]) w h ''point'' = Inr v
                \<and> list_all in_unit_interval (scalars v)))
       \<and> (list_all (\<lambda>p. 0 \<le> fst p \<and> fst p \<le> w \<and> 0 \<le> snd p \<and> snd p \<le> h) pts \<longrightarrow>
            (\<exists>v. normalize_coords (Seq (map point_coords pts)) w h ''trajectory'' = Inr v
                \<and> list_all in_unit_interval (scalars v)))"
proof (intro conjI impI)
  assume "0 \<le> x \<and> 0 \<le> bw \<and> x + bw \<le> w \<and> 0 \<le> y \<and> 0 \<le> bh \<and> y + bh \<le> h"
  then show "\<exists>v. normalize_coords (Seq [Num x, Num y, Num bw, Num bh]) w h ''bbox'' = Inr v
                \<and> list_all in_unit_interval (scalars v)"
    using assms by (intro bbox_inside) simp_all
next
  assume "0 \<le> px \<and> px \<le> w \<and> 0 \<le> py \<and> py \<le> h"
  then show "\<exists>v. normalize_coords (Seq [Num px, Num py]) w h ''point'' = Inr v
                \<and> list_all in_unit_interval (scalars v)"
    using normalize_pair_inside [of w h px py] assms by (simp add: normalize_coords_def)
next
  assume "list_all (\<lambda>p. 0 \<le> fst p \<and> fst p \<le> w \<and> 0 \<le> snd p \<and> snd p \<le> h) pts"
  then obtain vs where "normalize_each (map point_coords pts) w h = Inr vs"
      "list_all in_unit_interval (concat (map scalars vs))"
    using normalize_each_inside [OF assms] by blast
  then show "\<exists>v. normalize_coords (Seq (map point_coords pts)) w h ''trajectory'' = Inr v
                \<and> list_all in_unit_interval (scalars v)"
    by (simp add: normalize_coords_def)
qed

theorem normalized_in_unit_interval_witness:
  "(\<exists>v. normalize_coords (Seq [Num 14, Num 3, Num 310, Num 477]) 640 480 ''bbox'' = Inr v
       \<and> list_all in_unit_interval (scalars v))
   \<and> (\<exists>v. normalize_coords (Seq [Num 343, Num 202]) 640 480 ''point'' = Inr v
       \<and> list_all in_unit_interval (scalars v))
   \<and> (\<exists>v. normalize_coords (Seq [Seq [Num 250, Num 20], Seq [Num 260, Num 100]]) 640 425
              ''trajectory'' = Inr v
       \<and> list_all in_unit_interval (scalars v))"
  using normalized_in_unit_interval [of 640 480 14 310 3 477 343 202 "[]"]
    normalized_in_unit_interval [of 640 425 0 0 0 0 0 0 "[(250, 20), (260, 100)]"]
  by (simp add: point_coords_def)

lemma rounded_quotient_600_400: "rounded_quotient 600 400 = FloatV (Float False (3 / 2))"
  by (simp add: rounded_quotient_def round3_def float_div_def float_eval)

text \<open>
  The bound fails for a bbox whose four components are each within the image dimensions
  but whose far corner is not: \<^verbatim>\<open>[300, 300, 300, 300]\<close> on a \<open>400 \<times> 400\<close> image gives
  \<^verbatim>\<open>[0.75, 0.75, 1.5, 1.5]\<close>.
\<close>

theorem bbox_exceeds_unit_interval:
  "normalize_coords (Seq [Num 300, Num 300, Num 300, Num 300]) 400 400 ''bbox''
     = Inr (ListV [FloatV (decimal3 750), FloatV (decimal3 750),
                   FloatV (Float False (3 / 2)), FloatV (Float False (3 / 2))])
   \<and> \<not> in_unit_interval (Float False (3 / 2))"
proof -
  have f: "fits_double 300" "fits_double 600" by (simp_all add: fits_double_def)
  show ?thesis using f
    by (simp add: normalize_coords_def round_div_in_range rounded_quotient_300_400 rounded_quotient_600_400 in_unit_interval_def fval_def)
qed

section \<open>The driver on well-formed samples\<close>

lemma is_box_cases:
  "is_box c \<Longrightarrow> \<exists>x y bw bh. c = Seq [Num x, Num y, Num bw, Num bh]
     \<and> fits_double x \<and> fits_double y \<and> fits_double (x + bw) \<and> fits_double (y + bh)"
  by (induction c rule: is_box.induct) simp_all

lemma is_point_cases:
  "is_point c \<Longrightarrow> \<exists>x y. c = Seq [Num x, Num y] \<and> fits_double x \<and> fits_double y"
  by (induction c rule: is_point.induct) simp_all

lemma is_points_cases:
  "is_points c \<Longrightarrow> \<exists>pts. c = Seq (map point_coords pts)
     \<and> list_all (\<lambda>p. fits_double (fst p) \<and> fits_double (snd p)) pts"
proof (cases c)
  case (Num n)
  assume "is_points c"
  then show ?thesis using Num by simp
next
  case (Seq ps)
  assume "is_points c"
  then have "list_all is_point ps" using Seq by simp
  then have "\<exists>pts. ps = map point_coords pts
     \<and> list_all (\<lambda>p. fits_double (fst p) \<and> fits_double (snd p)) pts"
  proof (induction ps)
    case Nil
    show ?case by simp
  next
    case (Cons q qs)
    then obtain pts where pts: "qs = map point_coords pts"
        "list_all (\<lambda>p. fits_double (fst p) \<and> fits_double (snd p)) pts"
      by auto
    obtain x y where xy: "q = Seq [Num x, Num y]" "fits_double x" "fits_double y"
      using is_point_cases [of q] Cons.prems by auto
    show ?case
      by (rule exI [of _ "(x, y) # pts"]) (simp add: pts xy point_coords_def)
  qed
  then show ?thesis using Seq by simp
qed

lemma subscript_point: "i < 2 \<Longrightarrow> \<exists>c. subscript (point_coords p) i = Inr c"
  by (simp add: point_coords_def)

lemma column_points: "i < 2 \<Longrightarrow> \<exists>cs. column i (map point_coords pts) = Inr cs"
proof (induction pts)
  case Nil
  show ?case by simp
next
  case (Cons p pts)
  then obtain cs where cs: "column i (map point_coords pts) = Inr cs" by auto
  obtain c where c: "subscript (point_coords p) i = Inr c"
    using subscript_point [of i p] Cons.prems by auto
  show ?case using cs c by simp
qed

lemma normalize_box_returns:
  assumes "0 < w" and "0 < h" and "is_box c"
  shows "\<exists>v. normalize_coords c w h ''bbox'' = Inr v"
proof -
  obtain x y bw bh where b: "c = Seq [Num x, Num y, Num bw, Num bh]"
      "fits_double x" "fits_double y" "fits_double (x + bw)" "fits_double (y + bh)"
    using is_box_cases [of c] assms by auto
  show ?thesis using assms b by (simp add: normalize_coords_def round_div_in_range)
qed

lemma normalize_point_returns:
  assumes "0 < w" and "0 < h" and "is_point c"
  shows "\<exists>v. normalize_coords c w h ''point'' = Inr v"
proof -
  obtain x y where b: "c = Seq [Num x, Num y]" "fits_double x" "fits_double y"
    using is_point_cases [of c] assms by auto
  show ?thesis using assms b by (simp add: normalize_coords_def normalize_pair_in_range)
qed

lemma normalize_points_returns:
  assumes "0 < w" and "0 < h" and "is_points c"
  shows "\<exists>v. normalize_coords c w h ''trajectory'' = Inr v"
proof -
  obtain pts where pts: "c = Seq (map point_coords pts)"
      "list_all (\<lambda>p. fits_double (fst p) \<and> fits_double (snd p)) pts"
    using is_points_cases [of c] assms by auto
  show ?thesis using assms pts by (simp add: normalize_coords_def normalize_each_in_range)
qed

lemma visualize_task_well_formed:
  assumes "well_formed item"
  shows "visualize_task item name = Inr ()"
proof -
  consider (d) "item_task_type item = ''detection''"
    | (t) "item_task_type item = ''trajectory''"
    | (a) "item_task_type item = ''affordance''"
    using assms by (auto simp: well_formed_def split: if_splits)
  then show ?thesis
  proof cases
    case d
    then obtain c where c: "item_data item ''bbox'' = Some c" "is_box c"
      using assms by (auto simp: well_formed_def split: option.splits)
    then show ?thesis using d is_box_cases [of c]
      by (auto simp: visualize_task_def getitem_def)
  next
    case t
    then obtain c where c: "item_data item ''points'' = Some c" "is_points c"
      using assms by (auto simp: well_formed_def split: option.splits)
    then obtain pts where pts: "c = Seq (map point_coords pts)"
      using is_points_cases [of c] by auto
    obtain xs where xs: "column 0 (map point_coords pts) = Inr xs"
      using column_points [of 0 pts] by auto
    obtain ys where ys: "column 1 (map point_coords pts) = Inr ys"
      using column_points [of 1 pts] by auto
    show ?thesis using t c pts xs ys
      by (simp add: visualize_task_def getitem_def)
  next
    case a
    then obtain c where c: "item_data item ''point'' = Some c" "is_point c"
      using assms by (auto simp: well_formed_def split: option.splits)
    then show ?thesis using a is_point_cases [of c]
      by (auto simp: visualize_task_def getitem_def)
  qed
qed

lemma dispatch_well_formed:
  assumes "well_formed item" and "0 < w" and "0 < h"
  shows "\<exists>v pre post.
           ebind (getitem (item_data item) (payload_key (item_task_type item)))
             (\<lambda>c. normalize_coords c w h (normalized_kind (item_task_type item))) = Inr v
         \<and> dispatch repr item w h entry resp
             = Inr (append_annotation entry
                      \<lparr>ann_type = normalized_kind (item_task_type item), ann_value = v,
                       ann_label = item_label item\<rparr>,
                    Some (pre @ tagged (normalized_kind (item_task_type item)) (py_str repr v) @ post))"
proof -
  consider (d) "item_task_type item = ''detection''"
    | (t) "item_task_type item = ''trajectory''"
    | (a) "item_task_type item = ''affordance''"
    using assms by (auto simp: well_formed_def split: if_splits)
  then show ?thesis
  proof cases
    case d
    then obtain c where c: "item_data item ''bbox'' = Some c" "is_box c"
      using assms by (auto simp: well_formed_def split: option.splits)
    obtain v where v: "normalize_coords c w h ''bbox'' = Inr v"
      using normalize_box_returns [of w h c] assms c by auto
    have "dispatch repr item w h entry resp
             = Inr (append_annotation entry
                      \<lparr>ann_type = ''bbox'', ann_value = v, ann_label = item_label item\<rparr>,
                    Some (''Found at '' @ tagged ''bbox'' (py_str repr v) @ ''.''))"
      using d c v by (simp add: dispatch_def getitem_def tagged_def)
    then show ?thesis using d c v
      by (intro exI [of _ v] exI [of _ "''Found at ''"] exI [of _ "''.''"])
        (simp add: payload_key_def normalized_kind_def getitem_def)
  next
    case t
    then obtain c where c: "item_data item ''points'' = Some c" "is_points c"
      using assms by (auto simp: well_formed_def split: option.splits)
    obtain v where v: "normalize_coords c w h ''trajectory'' = Inr v"
      using normalize_points_returns [of w h c] assms c by auto
    have "dispatch repr item w h entry resp
             = Inr (append_annotation entry
                      \<lparr>ann_type = ''trajectory'', ann_value = v, ann_label = item_label item\<rparr>,
                    Some (''Trajectory path: '' @ tagged ''trajectory'' (py_str repr v) @ ''.''))"
      using t c v by (simp add: dispatch_def getitem_def tagged_def)
    then show ?thesis using t c v
      by (intro exI [of _ v] exI [of _ "''Trajectory path: ''"] exI [of _ "''.''"])
        (simp add: payload_key_def normalized_kind_def getitem_def)
  next
    case a
    then obtain c where c: "item_data item ''point'' = Some c" "is_point c"
      using assms by (auto simp: well_formed_def split: option.splits)
    obtain v where v: "normalize_coords c w h ''point'' = Inr v"
      using normalize_point_returns [of w h c] assms c by auto
    have "dispatch repr item w h entry resp
             = Inr (append_annotation entry
                      \<lparr>ann_type = ''point'', ann_value = v, ann_label = item_label item\<rparr>,
                    Some (''Interact at point: '' @ tagged ''point'' (py_str repr v) @ ''.''))"
      using a c v by (simp add: dispatch_def getitem_def tagged_def)
    then show ?thesis using a c v
      by (intro exI [of _ v] exI [of _ "''Interact at point: ''"] exI [of _ "''.''"])
        (simp add: payload_key_def normalized_kind_def getitem_def)
  qed
qed

lemma process_item_well_formed:
  assumes "well_formed item" and "0 < w" and "0 < h"
  shows "\<exists>entry resp.
           process_item repr item (w, h) st
             = Inr \<lparr>unified_data = unified_data st @ [entry], gpt_resp = resp,
                    rendered = rendered st @ [(item, save_name item)]\<rparr>
         \<and> emitted repr item (w, h) entry"
proof -
  obtain v pre post where
    v: "ebind (getitem (item_data item) (payload_key (item_task_type item)))
          (\<lambda>c. normalize_coords c w h (normalized_kind (item_task_type item))) = Inr v"
    and d: "dispatch repr item w h (new_entry item w h) (gpt_resp st)
             = Inr (append_annotation (new_entry item w h)
                      \<lparr>ann_type = normalized_kind (item_task_type item), ann_value = v,
                       ann_label = item_label item\<rparr>,
                    Some (pre @ tagged (normalized_kind (item_task_type item)) (py_str repr v) @ post))"
    using dispatch_well_formed [OF assms, of repr "new_entry item w h" "gpt_resp st"] by blast
  define entry where "entry =
    (append_annotation (new_entry item w h)
       \<lparr>ann_type = normalized_kind (item_task_type item), ann_value = v,
        ann_label = item_label item\<rparr>)
    \<lparr>conversations :=
       [\<lparr>turn_from = ''human'', turn_value = item_instruction item\<rparr>,
        \<lparr>turn_from = ''gpt'',
         turn_value = pre @ tagged (normalized_kind (item_task_type item)) (py_str repr v) @ post\<rparr>]\<rparr>"
  have p: "process_item repr item (w, h) st
             = Inr \<lparr>unified_data = unified_data st @ [entry],
                    gpt_resp = Some (pre @ tagged (normalized_kind (item_task_type item)) (py_str repr v) @ post),
                    rendered = rendered st @ [(item, save_name item)]\<rparr>"
    using d visualize_task_well_formed [OF assms(1)]
    by (simp add: process_item_def fill_conversations_def entry_def)
  have e: "emitted repr item (w, h) entry"
    unfolding emitted_def
    by (intro exI [of _ v] exI [of _ pre] exI [of _ post])
      (simp add: v entry_def append_annotation_def new_entry_def)
  show ?thesis using p e by blast
qed

lemma pipeline_loop_well_formed:
  "list_all (processable fetch) items \<Longrightarrow>
   \<exists>st' new.
     pipeline_loop fetch repr items st = Inr st'
     \<and> unified_data st' = unified_data st @ new
     \<and> list_all2 (record_of fetch repr) (filter (fetched fetch) items) new
     \<and> rendered st' = rendered st @ map (\<lambda>item. (item, save_name item)) (filter (fetched fetch) items)"
proof (induction items arbitrary: st)
  case Nil
  show ?case by simp
next
  case (Cons item items)
  show ?case
  proof (cases "download_image fetch (item_url item)")
    case None
    obtain st' new where
      "pipeline_loop fetch repr items st = Inr st'"
      "unified_data st' = unified_data st @ new"
      "list_all2 (record_of fetch repr) (filter (fetched fetch) items) new"
      "rendered st' = rendered st @ map (\<lambda>item. (item, save_name item)) (filter (fetched fetch) items)"
      using Cons.IH [of st] Cons.prems by auto
    moreover have "\<not> fetched fetch item" using None by (simp add: fetched_def)
    ultimately show ?thesis using None by simp
  next
    case (Some img)
    obtain w h where img: "img = (w, h)" by (cases img)
    have wf: "well_formed item" "0 < w" "0 < h"
      using Cons.prems Some img by (simp_all add: processable_def)
    obtain entry resp where
      p: "process_item repr item (w, h) st
             = Inr \<lparr>unified_data = unified_data st @ [entry], gpt_resp = resp,
                    rendered = rendered st @ [(item, save_name item)]\<rparr>"
      and e: "emitted repr item (w, h) entry"
      using process_item_well_formed [OF wf, of repr st] by blast
    define st1 where "st1 = \<lparr>unified_data = unified_data st @ [entry], gpt_resp = resp,
                    rendered = rendered st @ [(item, save_name item)]\<rparr>"
    obtain st' new where r:
      "pipeline_loop fetch repr items st1 = Inr st'"
      "unified_data st' = unified_data st1 @ new"
      "list_all2 (record_of fetch repr) (filter (fetched fetch) items) new"
      "rendered st' = rendered st1 @ map (\<lambda>item. (item, save_name item)) (filter (fetched fetch) items)"
      using Cons.IH [of st1] Cons.prems by auto
    have ro: "record_of fetch repr item entry"
      using Some img e by (auto simp: record_of_def)
    have f: "fetched fetch item" using Some by (simp add: fetched_def)
    have "pipeline_loop fetch repr (item # items) st = Inr st'"
      using Some img p r(1) by (simp add: st1_def)
    moreover have "unified_data st' = unified_data st @ (entry # new)"
      using r(2) by (simp add: st1_def)
    moreover have "list_all2 (record_of fetch repr) (filter (fetched fetch) (item # items)) (entry # new)"
      using r(3) ro f by simp
    moreover have "rendered st' = rendered st
        @ map (\<lambda>item. (item, save_name item)) (filter (fetched fetch) (item # items))"
      using r(4) f by (simp add: st1_def)
    ultimately show ?thesis by blast
  qed
qed

section \<open>Properties of the driver\<close>

lemma lines_from_line:
  "newline \<notin> set l \<Longrightarrow> lines_from cur (l @ newline # rest) = (cur @ l) # lines_from [] rest"
  by (induction l arbitrary: cur) auto

lemma file_lines_write_jsonl:
  assumes "\<forall>d. newline \<notin> set (dumps d)"
  shows "file_lines (write_jsonl dumps ds) = map dumps ds"
proof -
  have "lines_from [] (concat (map (\<lambda>d. dumps d @ [newline]) ds)) = map dumps ds"
  proof (induction ds)
    case Nil
    show ?case by simp
  next
    case (Cons d ds)
    have "newline \<notin> set (dumps d)" using assms by simp
    then show ?case using Cons lines_from_line [of "dumps d" "[]"] by simp
  qed
  then show ?thesis by (simp add: file_lines_def write_jsonl_def)
qed

lemma record_of_id: "record_of fetch repr item entry \<Longrightarrow> entry_id entry = item_id item"
  by (auto simp: record_of_def emitted_def)

lemma record_of_shape:
  "record_of fetch repr item entry \<Longrightarrow>
     length (spatial_annotations entry) = 1
     \<and> map ann_type (spatial_annotations entry) = [normalized_kind (item_task_type item)]
     \<and> map turn_from (conversations entry) = [''human'', ''gpt'']"
  by (auto simp: record_of_def emitted_def)

lemma records_ids:
  "list_all2 (record_of fetch repr) items entries \<Longrightarrow> map entry_id entries = map item_id items"
  by (induction rule: list_all2_induct) (simp_all add: record_of_id)

lemma records_shape:
  "list_all2 (record_of fetch repr) items entries \<Longrightarrow>
     list_all (\<lambda>entry. length (spatial_annotations entry) = 1
                \<and> map turn_from (conversations entry) = [''human'', ''gpt'']) entries"
  by (induction rule: list_all2_induct) (simp_all add: record_of_shape)

lemma run_well_formed:
  assumes "list_all (processable fetch) samples"
  shows "\<exists>st. pipeline_loop fetch repr samples initial = Inr st
     \<and> run_multimodal_pipeline fetch repr dumps samples
         = Inr \<lparr>jsonl = write_jsonl dumps (unified_data st), figures = rendered st\<rparr>
     \<and> list_all2 (record_of fetch repr) (filter (fetched fetch) samples) (unified_data st)
     \<and> rendered st = map (\<lambda>item. (item, save_name item)) (filter (fetched fetch) samples)"
proof -
  obtain st new where
    "pipeline_loop fetch repr samples initial = Inr st"
    "unified_data st = unified_data initial @ new"
    "list_all2 (record_of fetch repr) (filter (fetched fetch) samples) new"
    "rendered st = rendered initial
       @ map (\<lambda>item. (item, save_name item)) (filter (fetched fetch) samples)"
    using pipeline_loop_well_formed [OF assms, of repr initial] by blast
  then show ?thesis by (simp add: run_multimodal_pipeline_def initial_def)
qed


lemma example_processable: "list_all (processable example_fetch) REAL_SAMPLES"
  by (simp add: REAL_SAMPLES_def processable_def example_fetch_def download_image_def
      well_formed_def fits_double_def)

lemma example_dumps_one_line: "\<forall>d. newline \<notin> set (example_dumps d)"
  by (simp add: example_dumps_def)


text \<open>
  C9. When every sample whose image arrives is well formed (its task type in the closed
  set) the run completes, and the records it emits are, in order, those of the samples
  whose fetch succeeded: each has exactly one spatial annotation, whose type is the
  normalized kind of the task type and whose value is the normalized payload, and exactly
  two turns, a human one with the instruction and then a gpt one whose text holds the
  value inside the marker of the kind.
\<close>

theorem emitted_records:
  assumes "list_all (processable fetch) samples"
  shows "\<exists>st. pipeline_loop fetch repr samples initial = Inr st
     \<and> run_multimodal_pipeline fetch repr dumps samples
         = Inr \<lparr>jsonl = write_jsonl dumps (unified_data st), figures = rendered st\<rparr>
     \<and> list_all2 (record_of fetch repr) (filter (fetched fetch) samples) (unified_data st)
     \<and> list_all (\<lambda>entry. length (spatial_annotations entry) = 1
                  \<and> map turn_from (conversations entry) = [''human'', ''gpt''])
         (unified_data st)"
  using run_well_formed [OF assms, of repr dumps] records_shape by blast


theorem emitted_records_witness:
  "\<exists>st. pipeline_loop example_fetch example_repr REAL_SAMPLES initial = Inr st
     \<and> run_multimodal_pipeline example_fetch example_repr example_dumps REAL_SAMPLES
         = Inr \<lparr>jsonl = write_jsonl example_dumps (unified_data st), figures = rendered st\<rparr>
     \<and> list_all2 (record_of example_fetch example_repr)
         (filter (fetched example_fetch) REAL_SAMPLES) (unified_data st)
     \<and> list_all (\<lambda>entry. length (spatial_annotations entry) = 1
                  \<and> map turn_from (conversations entry) = [''human'', ''gpt''])
         (unified_data st)"
  using emitted_records [OF example_processable, of example_repr example_dumps] .


text \<open>
  C8. After the loop the file holds one line per record, the line being the JSON text of
  the record, and the records are in the order of the input samples restricted to those
  whose fetch succeeded.
\<close>

theorem jsonl_lines_in_order:
  assumes "list_all (processable fetch) samples" and "\<forall>d. newline \<notin> set (dumps d)"
  shows "\<exists>out recs. run_multimodal_pipeline fetch repr dumps samples = Inr out
     \<and> jsonl out = write_jsonl dumps recs
     \<and> file_lines (jsonl out) = map dumps recs
     \<and> list_all2 (record_of fetch repr) (filter (fetched fetch) samples) recs
     \<and> map entry_id recs = map item_id (filter (fetched fetch) samples)"
proof -
  obtain st where st':
    "pipeline_loop fetch repr samples initial = Inr st"
    "run_multimodal_pipeline fetch repr dumps samples
         = Inr \<lparr>jsonl = write_jsonl dumps (unified_data st), figures = rendered st\<rparr>"
    "list_all2 (record_of fetch repr) (filter (fetched fetch) samples) (unified_data st)"
    "rendered st = map (\<lambda>item. (item, save_name item)) (filter (fetched fetch) samples)"
    using run_well_formed [OF assms(1), of repr dumps] by blast
  note st = st'(2) st'(3)
  show ?thesis
    by (intro exI [of _ "\<lparr>jsonl = write_jsonl dumps (unified_data st), figures = rendered st\<rparr>"]
          exI [of _ "unified_data st"])
      (simp add: st file_lines_write_jsonl [OF assms(2)] records_ids [OF st(2)])
qed


theorem jsonl_lines_in_order_witness:
  "\<exists>out recs. run_multimodal_pipeline example_fetch example_repr example_dumps REAL_SAMPLES = Inr out
     \<and> jsonl out = write_jsonl example_dumps recs
     \<and> file_lines (jsonl out) = map example_dumps recs
     \<and> list_all2 (record_of example_fetch example_repr)
         (filter (fetched example_fetch) REAL_SAMPLES) recs
     \<and> map entry_id recs = map item_id (filter (fetched example_fetch) REAL_SAMPLES)"
  using jsonl_lines_in_order [OF example_processable example_dumps_one_line, of example_repr] .


text \<open>
  C7. For a sample whose fetch fails, among samples of distinct ids: the run still
  completes and writes the file with the records of the successful samples, no record
  carries the id of the failed sample, and \<^verbatim>\<open>visualize_task\<close> is not called for it.
\<close>

theorem skip_on_fetch_failure:
  assumes "list_all (processable fetch) samples"
    and "item \<in> set samples" and "fetch (item_url item) = Inl e"
    and "distinct (map item_id samples)"
  shows "\<exists>st. pipeline_loop fetch repr samples initial = Inr st
     \<and> run_multimodal_pipeline fetch repr dumps samples
         = Inr \<lparr>jsonl = write_jsonl dumps (unified_data st), figures = rendered st\<rparr>
     \<and> list_all2 (record_of fetch repr) (filter (fetched fetch) samples) (unified_data st)
     \<and> item_id item \<notin> set (map entry_id (unified_data st))
     \<and> item \<notin> set (map fst (rendered st))"
proof -
  obtain st where st:
    "pipeline_loop fetch repr samples initial = Inr st"
    "run_multimodal_pipeline fetch repr dumps samples
         = Inr \<lparr>jsonl = write_jsonl dumps (unified_data st), figures = rendered st\<rparr>"
    "list_all2 (record_of fetch repr) (filter (fetched fetch) samples) (unified_data st)"
    "rendered st = map (\<lambda>item. (item, save_name item)) (filter (fetched fetch) samples)"
    using run_well_formed [OF assms(1), of repr dumps] by blast
  have nf: "\<not> fetched fetch item" using assms(3) by (simp add: fetched_def download_image_def)
  have inj: "inj_on item_id (set samples)" using assms(4) by (simp add: distinct_map)
  have "item_id item \<notin> set (map item_id (filter (fetched fetch) samples))"
  proof
    assume "item_id item \<in> set (map item_id (filter (fetched fetch) samples))"
    then obtain s where s: "s \<in> set samples" "fetched fetch s" "item_id s = item_id item"
      by auto
    then have "s = item" using inj assms(2) by (auto dest: inj_onD)
    then show False using s nf by simp
  qed
  then have a: "item_id item \<notin> set (map entry_id (unified_data st))"
    using records_ids [OF st(3)] by simp
  have b: "item \<notin> set (map fst (rendered st))" using nf by (simp add: st(4) comp_def)
  show ?thesis using st a b by blast
qed


theorem skip_on_fetch_failure_witness:
  "\<exists>st. pipeline_loop example_fetch example_repr REAL_SAMPLES initial = Inr st
     \<and> run_multimodal_pipeline example_fetch example_repr example_dumps REAL_SAMPLES
         = Inr \<lparr>jsonl = write_jsonl example_dumps (unified_data st), figures = rendered st\<rparr>
     \<and> list_all2 (record_of example_fetch example_repr)
         (filter (fetched example_fetch) REAL_SAMPLES) (unified_data st)
     \<and> item_id (REAL_SAMPLES ! 1) \<notin> set (map entry_id (unified_data st))
     \<and> REAL_SAMPLES ! 1 \<notin> set (map fst (rendered st))"
proof -
  have a: "REAL_SAMPLES ! 1 \<in> set REAL_SAMPLES" by (simp add: REAL_SAMPLES_def)
  have b: "example_fetch (item_url (REAL_SAMPLES ! 1)) = Inl OSError"
    by (simp add: REAL_SAMPLES_def example_fetch_def)
  have c: "distinct (map item_id REAL_SAMPLES)" by (simp add: REAL_SAMPLES_def)
  show ?thesis
    using skip_on_fetch_failure [OF example_processable a b c, of example_repr example_dumps] .
qed


text \<open>
  C5, as the code has it. For a sample whose task type is outside the closed set the
  dispatch takes no branch: nothing is raised, the entry gets no annotation and
  \<^verbatim>\<open>gpt_resp\<close> is not assigned; \<^verbatim>\<open>visualize_task\<close> draws nothing and raises nothing. The
  run is known to complete when the task type of every processed sample is in the closed
  set.
\<close>

theorem unknown_task_falls_through:
  "(\<not> known_task (item_task_type item) \<longrightarrow>
      dispatch repr item w h entry resp = Inr (entry, resp)
      \<and> visualize_task item name = Inr ())
   \<and> (list_all (processable fetch) samples \<longrightarrow>
      (\<exists>out. run_multimodal_pipeline fetch repr dumps samples = Inr out))"
proof (intro conjI impI)
  assume "\<not> known_task (item_task_type item)"
  then show "dispatch repr item w h entry resp = Inr (entry, resp)"
    by (simp add: dispatch_def known_task_def)
next
  assume "\<not> known_task (item_task_type item)"
  then show "visualize_task item name = Inr ()"
    by (simp add: visualize_task_def known_task_def)
next
  assume "list_all (processable fetch) samples"
  then show "\<exists>out. run_multimodal_pipeline fetch repr dumps samples = Inr out"
    using run_well_formed [of fetch samples repr dumps] by blast
qed


theorem unknown_task_falls_through_witness:
  "dispatch example_repr example_unknown 640 480 (new_entry example_unknown 640 480) None
     = Inr (new_entry example_unknown 640 480, None)
   \<and> visualize_task example_unknown (save_name example_unknown) = Inr ()
   \<and> (\<exists>out. run_multimodal_pipeline example_fetch example_repr example_dumps REAL_SAMPLES
              = Inr out)"
  using unknown_task_falls_through [of example_unknown example_repr 640 480
      "new_entry example_unknown 640 480" None "save_name example_unknown"
      example_fetch REAL_SAMPLES example_dumps]
    example_processable
  by (simp add: known_task_def example_unknown_def)

text \<open>
  A sample of unknown task type is not skipped, and what follows is fatal: when it is the
  first sample processed, \<^verbatim>\<open>gpt_resp\<close> is read unbound, the run ends there and no file is
  written, although the three samples after it are well formed.
\<close>

theorem unknown_task_aborts_run:
  "run_multimodal_pipeline (\<lambda>url. Inr (640, 480)) example_repr example_dumps
     (example_unknown # REAL_SAMPLES) = Inl UnboundLocalError"
  by (simp add: run_multimodal_pipeline_def download_image_def process_item_def dispatch_def
      new_entry_def initial_def fill_conversations_def example_unknown_def)

end
